theory Spec2Isabelle
  imports Main "HOL-Library.Sublist"
begin

section \<open>Python values used by main.py\<close>

text \<open>
  Exceptions that escape a function of main.py are values of \<open>py_error\<close>; a function
  that can raise returns \<open>py_error + 'a\<close>, with \<open>Inl\<close> for the exception.
  \<open>HTTPException\<close> is what discord.py raises when a request to the chat platform fails.
\<close>

datatype py_error = TypeError | ValueError | HTTPException

subsection \<open>\<open>str(n)\<close> for an int\<close>

definition digit_char :: "nat \<Rightarrow> char" where
  "digit_char d = char_of (48 + d)"

function digits :: "nat \<Rightarrow> string" where
  "digits n = (if n < 10 then [digit_char n] else digits (n div 10) @ [digit_char (n mod 10)])"
  by pat_completeness auto
termination
  by (relation "measure (\<lambda>n. n)") auto

declare digits.simps [simp del]

text \<open>Python's \<open>str\<close> on an int: decimal digits, a leading minus sign when negative.\<close>

definition py_str :: "int \<Rightarrow> string" where
  "py_str i = (if i < 0 then CHR ''-'' # digits (nat (- i)) else digits (nat i))"

subsection \<open>\<open>int(s)\<close> for a str\<close>

text \<open>
  Python's \<open>int\<close> on a string, base 10, for ASCII text: surrounding whitespace (tab,
  line feed, vertical tab, form feed, carriage return, space) is stripped, one sign is
  accepted, and the digits may be grouped by single underscores. Anything else raises
  ValueError (\<open>None\<close> here). Strings are ASCII here: Python also strips Unicode
  whitespace and reads non-ASCII decimal digits, and it caps the number of digits of a
  conversion far above the length of a 64-bit id; neither is modelled.
\<close>

definition is_space :: "char \<Rightarrow> bool" where
  "is_space c = (let k = (of_char c :: nat) in (9 \<le> k \<and> k \<le> 13) \<or> k = 32)"

definition is_digit :: "char \<Rightarrow> bool" where
  "is_digit c = (let k = (of_char c :: nat) in 48 \<le> k \<and> k \<le> 57)"

definition digit_val :: "char \<Rightarrow> nat" where
  "digit_val c = of_char c - 48"

definition strip :: "string \<Rightarrow> string" where
  "strip s = rev (dropWhile is_space (rev (dropWhile is_space s)))"

fun parse_digits :: "nat \<Rightarrow> string \<Rightarrow> nat option" where
  "parse_digits acc [] = Some acc"
| "parse_digits acc (c # cs) =
     (if is_digit c then parse_digits (10 * acc + digit_val c) cs
      else if c = CHR ''_'' then
        (case cs of
           [] \<Rightarrow> None
         | d # ds \<Rightarrow> if is_digit d then parse_digits (10 * acc + digit_val d) ds else None)
      else None)"

definition parse_nat :: "string \<Rightarrow> nat option" where
  "parse_nat s =
     (case s of
        [] \<Rightarrow> None
      | c # cs \<Rightarrow> if is_digit c then parse_digits (digit_val c) cs else None)"

definition py_int :: "string \<Rightarrow> int option" where
  "py_int s =
     (case strip s of
        [] \<Rightarrow> None
      | c # cs \<Rightarrow>
          if c = CHR ''-'' then map_option (\<lambda>n. - int n) (parse_nat cs)
          else if c = CHR ''+'' then map_option int (parse_nat cs)
          else map_option int (parse_nat (c # cs)))"

text \<open>
  A JSON object received from the provider, with string values: an association list
  read with \<open>map_of\<close>. \<open>d.get(k)\<close> is \<open>map_of d k\<close> (\<open>None\<close> when the key is
  absent), and \<open>not d\<close> holds for the empty object.
\<close>

type_synonym json_obj = "(string \<times> string) list"

text \<open>\<open>str(v)\<close> and \<open>int(v)\<close> for the result of \<open>d.get(k)\<close>: a string or Python's None.\<close>

definition str_of_json :: "string option \<Rightarrow> string" where
  "str_of_json v = (case v of None \<Rightarrow> ''None'' | Some s \<Rightarrow> s)"

definition int_of_json :: "string option \<Rightarrow> py_error + int" where
  "int_of_json v =
     (case v of
        None \<Rightarrow> Inl TypeError
      | Some s \<Rightarrow> (case py_int s of None \<Rightarrow> Inl ValueError | Some n \<Rightarrow> Inr n))"

text \<open>\<open>s.split(sep)\<close> for a one-character separator.\<close>

fun split_on :: "char \<Rightarrow> string \<Rightarrow> string list" where
  "split_on sep [] = [[]]"
| "split_on sep (c # cs) =
     (if c = sep then [] # split_on sep cs
      else (case split_on sep cs of [] \<Rightarrow> [[c]] | w # ws \<Rightarrow> (c # w) # ws))"

section \<open>The three tables\<close>

text \<open>
  \<open>user_access_tokens\<close>, \<open>pending_verifications\<close> and \<open>oauth2_adds_log\<close> are module-level
  names bound to dict objects, keyed by the user id as a string. A value is what the
  program stores under a key: a guild id, an access token, or a list of log entries.
  The dicts live in a heap of objects and the three names are references into it, so
  that two names may be bound to the same dict. \<open>save_json_file\<close> writes a dict to disk
  and swallows its own errors; it does not change the objects and is left out.
\<close>

record log_entry =
  entry_timestamp :: string
  entry_guild_id :: int
  entry_method :: string

datatype jvalue = JInt int | JStr string | JLog "log_entry list"

type_synonym table = "string \<rightharpoonup> jvalue"

record store =
  objects :: "nat \<Rightarrow> table"
  user_access_tokens :: nat
  pending_verifications :: nat
  oauth2_adds_log :: nat

text \<open>\<open>d[k] = v\<close> and \<open>del d[k]\<close> on the dict that a reference points to.\<close>

definition dict_set :: "store \<Rightarrow> nat \<Rightarrow> string \<Rightarrow> jvalue \<Rightarrow> store" where
  "dict_set st r k v = st\<lparr>objects := (objects st)(r := (objects st r)(k \<mapsto> v))\<rparr>"

definition dict_del :: "store \<Rightarrow> nat \<Rightarrow> string \<Rightarrow> store" where
  "dict_del st r k = st\<lparr>objects := (objects st)(r := (objects st r)(k := None))\<rparr>"

text \<open>Python's truth value of a stored value: 0, the empty string and the empty list are false.\<close>

definition truthy_value :: "jvalue \<Rightarrow> bool" where
  "truthy_value v = (case v of JInt i \<Rightarrow> i \<noteq> 0 | JStr s \<Rightarrow> s \<noteq> [] | JLog es \<Rightarrow> es \<noteq> [])"

text \<open>
  \<open>load_json_file(filename, default={})\<close> returns the dict read from the file, a new
  object, or \<open>default\<close> when the file is missing or unreadable. The default is the one
  dict that Python creates when the function is defined: every call that falls back
  returns that same object. \<open>content\<close> is what the file holds (\<open>None\<close>: missing or
  unreadable), \<open>loaded\<close> the address of the dict read from it.
\<close>

definition default_dict :: nat where
  "default_dict = 0"

definition load_json_file :: "table option \<Rightarrow> nat \<Rightarrow> nat" where
  "load_json_file content loaded = (case content of None \<Rightarrow> default_dict | Some d \<Rightarrow> loaded)"

record files =
  tokens_file :: "table option"
  pending_file :: "table option"
  adds_file :: "table option"

definition file_dict :: "table option \<Rightarrow> table" where
  "file_dict content = (case content of None \<Rightarrow> Map.empty | Some d \<Rightarrow> d)"

text \<open>The three assignments at import time (lines 80 to 82).\<close>

definition startup :: "files \<Rightarrow> store" where
  "startup fs =
     \<lparr>objects = (\<lambda>a. if a = 1 then file_dict (tokens_file fs)
                    else if a = 2 then file_dict (pending_file fs)
                    else if a = 3 then file_dict (adds_file fs)
                    else Map.empty),
      user_access_tokens = load_json_file (tokens_file fs) 1,
      pending_verifications = load_json_file (pending_file fs) 2,
      oauth2_adds_log = load_json_file (adds_file fs) 3\<rparr>"

text \<open>Configuration read from the environment at start-up.\<close>

record config =
  CLIENT_ID :: string
  REDIRECT_URI :: string
  UNVERIFIED_ROLE_ID :: int
  VERIFIED_ROLE_ID :: int
  TARGET_SERVER_ID :: int

section \<open>OAuth2 helper functions\<close>

text \<open>
  What an HTTP request to the provider did: the \<open>aiohttp\<close> call raised, or a response
  arrived with a status and a body. For the two JSON endpoints the body is the parsed
  object, or \<open>None\<close> when \<open>resp.json()\<close> raises.
\<close>

datatype 'a http_result = Http_Exception | Http_Response int 'a

definition exchange_code_for_token :: "json_obj option http_result \<Rightarrow> json_obj option" where
  "exchange_code_for_token reply =
     (case reply of
        Http_Exception \<Rightarrow> None
      | Http_Response status body \<Rightarrow> if status = 200 then body else None)"

definition get_user_info :: "json_obj option http_result \<Rightarrow> json_obj option" where
  "get_user_info reply =
     (case reply of
        Http_Exception \<Rightarrow> None
      | Http_Response status body \<Rightarrow> if status = 200 then body else None)"

text \<open>
  The logging of a redirect (lines 182 to 188 and 197 to 203): an absent key is set to
  the empty list, then the entry is appended to the value under the key. \<open>.append\<close>
  raises AttributeError (\<open>None\<close> here) when that value is not a list.
\<close>

definition log_append :: "store \<Rightarrow> string \<Rightarrow> log_entry \<Rightarrow> store option" where
  "log_append st user_id e =
     (let st1 = (if objects st (oauth2_adds_log st) user_id = None
                 then dict_set st (oauth2_adds_log st) user_id (JLog []) else st)
      in case objects st1 (oauth2_adds_log st1) user_id of
           Some (JLog es) \<Rightarrow> Some (dict_set st1 (oauth2_adds_log st1) user_id (JLog (es @ [e])))
         | _ \<Rightarrow> None)"

text \<open>
  \<open>add_user_to_guild_via_oauth2\<close>. The whole body is inside \<open>try\<close>, and every exception
  ends in \<open>return False\<close>: \<open>access_token[:30]\<close> on an int, before the request is made;
  the request itself; \<open>.append\<close> on a value that is not a list, after a 200, 201 or 204.
  \<open>now\<close> is \<open>datetime.utcnow().isoformat()\<close> at the time of the call.
\<close>

definition add_user_to_guild_via_oauth2 ::
  "string http_result \<Rightarrow> string \<Rightarrow> store \<Rightarrow> string \<Rightarrow> jvalue \<Rightarrow> int \<Rightarrow> bool \<times> store"
where
  "add_user_to_guild_via_oauth2 reply now st user_id access_token guild_id =
     (case access_token of
        JInt n \<Rightarrow> (False, st)
      | _ \<Rightarrow>
         (case reply of
            Http_Exception \<Rightarrow> (False, st)
          | Http_Response status response_text \<Rightarrow>
              if status = 200 \<or> status = 201 then
                (case log_append st user_id
                        \<lparr>entry_timestamp = now, entry_guild_id = guild_id,
                         entry_method = ''oauth2_guilds_join''\<rparr> of
                   None \<Rightarrow> (False, st)
                 | Some st' \<Rightarrow> (True, st'))
              else if status = 204 then
                (case log_append st user_id
                        \<lparr>entry_timestamp = now, entry_guild_id = guild_id,
                         entry_method = ''already_member''\<rparr> of
                   None \<Rightarrow> (False, st)
                 | Some st' \<Rightarrow> (True, st'))
              else if status = 403 then (False, st)
              else (False, st)))"

text \<open>
  \<open>verify_user_in_guild\<close> asks the Discord client for the guild, the member and the
  verified role, and then changes the member's roles. The client's cache is a dict from
  guild ids (ints) to guilds: \<open>bot.get_guild\<close> finds nothing under a string and raises
  TypeError on a list, which cannot be hashed; that call is outside the \<open>try\<close>. The
  role change either raises, which is caught, or goes through. The roles themselves
  live on Discord's side and are not part of the tables.
\<close>

record guild =
  guild_members :: "int list"
  guild_roles :: "int list"
  role_update_raises :: "int \<Rightarrow> bool"

definition verify_user_in_guild ::
  "config \<Rightarrow> (int \<rightharpoonup> guild) \<Rightarrow> int \<Rightarrow> jvalue \<Rightarrow> py_error + bool"
where
  "verify_user_in_guild cfg guilds user_id guild_id =
     (case guild_id of
        JLog es \<Rightarrow> Inl TypeError
      | JStr s \<Rightarrow> Inr False
      | JInt g \<Rightarrow>
          (case guilds g of
             None \<Rightarrow> Inr False
           | Some gd \<Rightarrow>
               if user_id \<notin> set (guild_members gd) then Inr False
               else if VERIFIED_ROLE_ID cfg \<notin> set (guild_roles gd) then Inr False
               else Inr (\<not> role_update_raises gd user_id)))"

section \<open>Starting a verification\<close>

text \<open>
  \<open>StartVerifyButton.start_verify\<close>. The interaction carries the member, the guild, the
  roles of both, and whether \<open>member.add_roles\<close> and \<open>member.send\<close> raise. The reply
  is the ephemeral message of the branch taken; \<open>Check_Your_DMs\<close> carries the URL of the
  direct message that was sent.
\<close>

definition state_data :: "int \<Rightarrow> int \<Rightarrow> string" where
  "state_data member_id guild_id = py_str member_id @ '':'' @ py_str guild_id"

definition oauth_url :: "config \<Rightarrow> int \<Rightarrow> int \<Rightarrow> string" where
  "oauth_url cfg member_id guild_id =
     ''https://discord.com/api/oauth2/authorize?client_id='' @ CLIENT_ID cfg
     @ ''&redirect_uri='' @ REDIRECT_URI cfg
     @ ''&response_type=code&scope=identify+guilds.join&state=''
     @ state_data member_id guild_id"

record interaction =
  member_id :: int
  member_roles :: "int list"
  origin_guild_id :: int
  origin_guild_roles :: "int list"
  add_roles_raises :: bool
  send_raises :: bool

datatype verify_reply =
    Already_Verified
  | Not_Configured
  | Cannot_Assign_Roles
  | Check_Your_DMs string
  | Enable_DMs

definition start_verify :: "config \<Rightarrow> interaction \<Rightarrow> store \<Rightarrow> verify_reply \<times> store" where
  "start_verify cfg ia st =
     (if VERIFIED_ROLE_ID cfg \<in> set (origin_guild_roles ia)
         \<and> VERIFIED_ROLE_ID cfg \<in> set (member_roles ia) then (Already_Verified, st)
      else if UNVERIFIED_ROLE_ID cfg \<notin> set (origin_guild_roles ia) then (Not_Configured, st)
      else if UNVERIFIED_ROLE_ID cfg \<notin> set (member_roles ia) \<and> add_roles_raises ia
        then (Cannot_Assign_Roles, st)
      else
        let url = oauth_url cfg (member_id ia) (origin_guild_id ia);
            st' = dict_set st (pending_verifications st) (py_str (member_id ia))
                    (JInt (origin_guild_id ia))
        in if send_raises ia then (Enable_DMs, st') else (Check_Your_DMs url, st'))"

section \<open>Completing a verification\<close>

text \<open>
  \<open>complete_verification\<close>. \<open>reply\<close> is the provider's answer to the identity request
  that the function makes. \<open>int(user_id_from_token)\<close> raises when the identity has no
  id or an id that is not an integer literal, and \<open>verify_user_in_guild\<close> can raise;
  both happen before any dict is written.
\<close>

definition complete_verification ::
  "config \<Rightarrow> (int \<rightharpoonup> guild) \<Rightarrow> json_obj option http_result \<Rightarrow> store \<Rightarrow> int \<Rightarrow> string
     \<Rightarrow> py_error + bool \<times> store"
where
  "complete_verification cfg guilds reply st user_id access_token =
     (case get_user_info reply of
        None \<Rightarrow> Inr (False, st)
      | Some user_info \<Rightarrow>
          if user_info = [] then Inr (False, st)
          else
            let user_id_from_token = map_of user_info ''id''
            in case (if py_str user_id \<noteq> str_of_json user_id_from_token
                     then int_of_json user_id_from_token else Inr user_id) of
                 Inl e \<Rightarrow> Inl e
               | Inr uid \<Rightarrow>
                   let user_id_str = py_str uid
                   in case objects st (pending_verifications st) user_id_str of
                        Some guild_id \<Rightarrow>
                          (case verify_user_in_guild cfg guilds uid guild_id of
                             Inl e \<Rightarrow> Inl e
                           | Inr success \<Rightarrow>
                               if success then
                                 Inr (True,
                                      dict_set (dict_del st (pending_verifications st) user_id_str)
                                        (user_access_tokens st) user_id_str (JStr access_token))
                               else Inr (False, st))
                      | None \<Rightarrow>
                          Inr (False,
                               dict_set st (user_access_tokens st) user_id_str
                                 (JStr access_token)))"

section \<open>The callback endpoint\<close>

text \<open>
  \<open>web.Response(text=..., content_type=...)\<close> of aiohttp: the status is 200 unless given,
  and the content type is \<open>text/plain\<close> unless given.
\<close>

datatype page = No_Code_Message | Exchange_Failed_Message | Authorization_Complete_Page

record response =
  status :: int
  content_type :: string
  body :: page

definition web_Response :: "page \<Rightarrow> string option \<Rightarrow> response" where
  "web_Response text ct =
     \<lparr>status = 200, content_type = (case ct of None \<Rightarrow> ''text/plain'' | Some c \<Rightarrow> c),
      body = text\<rparr>"

record request =
  query_code :: "string option"
  query_state :: "string option"

text \<open>
  The parsing of \<open>state\<close> in \<open>handle_callback\<close>: \<open>user_id\<close> and \<open>guild_id\<close> start as
  None; an exception in the \<open>try\<close> block keeps what was assigned before it.
\<close>

definition parse_state :: "string option \<Rightarrow> int option \<times> int option" where
  "parse_state state =
     (case state of
        None \<Rightarrow> (None, None)
      | Some s \<Rightarrow>
          if s \<noteq> [] \<and> CHR '':'' \<in> set s then
            (case split_on CHR '':'' s of
               [user_id_str, guild_id_str] \<Rightarrow>
                 (case py_int user_id_str of
                    None \<Rightarrow> (None, None)
                  | Some u \<Rightarrow>
                      (case py_int guild_id_str of
                         None \<Rightarrow> (Some u, None)
                       | Some g \<Rightarrow> (Some u, Some g)))
             | _ \<Rightarrow> (None, None))
          else (None, None))"

text \<open>\<open>if user_id:\<close> for an optional int: None and 0 are false.\<close>

definition truthy :: "int option \<Rightarrow> bool" where
  "truthy v = (case v of None \<Rightarrow> False | Some n \<Rightarrow> n \<noteq> 0)"

text \<open>
  The provider's answers during one callback: to the token request, to the identity
  request that \<open>handle_callback\<close> makes when the state gave no user id, and to the
  identity request of \<open>complete_verification\<close>.
\<close>

record provider =
  token_reply :: "json_obj option http_result"
  identity_reply_callback :: "json_obj option http_result"
  identity_reply_verification :: "json_obj option http_result"

text \<open>
  The fallback of \<open>handle_callback\<close> when the state gave no user id (\<open>if not
  user_id:\<close>): the id of the identity, when the lookup returns one; \<open>int\<close> of a
  missing or malformed id raises.
\<close>

definition resolve_user_id :: "provider \<Rightarrow> int option \<Rightarrow> py_error + int option" where
  "resolve_user_id prov user_id =
     (if \<not> truthy user_id then
        (case get_user_info (identity_reply_callback prov) of
           None \<Rightarrow> Inr user_id
         | Some user_info \<Rightarrow>
             if user_info = [] then Inr user_id
             else (case int_of_json (map_of user_info ''id'') of
                     Inl e \<Rightarrow> Inl e
                   | Inr n \<Rightarrow> Inr (Some n)))
      else Inr user_id)"

definition handle_callback ::
  "config \<Rightarrow> (int \<rightharpoonup> guild) \<Rightarrow> provider \<Rightarrow> store \<Rightarrow> request \<Rightarrow> py_error + response \<times> store"
where
  "handle_callback cfg guilds prov st req =
     (case query_code req of
        None \<Rightarrow> Inr (web_Response No_Code_Message None, st)
      | Some code \<Rightarrow>
          if code = [] then Inr (web_Response No_Code_Message None, st)
          else
            (case exchange_code_for_token (token_reply prov) of
               None \<Rightarrow> Inr (web_Response Exchange_Failed_Message None, st)
             | Some token_data \<Rightarrow>
                 (case (if token_data = [] then None else map_of token_data ''access_token'') of
                    None \<Rightarrow> Inr (web_Response Exchange_Failed_Message None, st)
                  | Some access_token \<Rightarrow>
                      (case resolve_user_id prov (fst (parse_state (query_state req))) of
                         Inl e \<Rightarrow> Inl e
                       | Inr None \<Rightarrow>
                           Inr (web_Response Authorization_Complete_Page (Some ''text/html''), st)
                       | Inr (Some user_id) \<Rightarrow>
                           if user_id = 0 then
                             Inr (web_Response Authorization_Complete_Page (Some ''text/html''), st)
                           else
                             (case complete_verification cfg guilds
                                     (identity_reply_verification prov) st user_id access_token of
                                Inl e \<Rightarrow> Inl e
                              | Inr (ok, st') \<Rightarrow>
                                  Inr (web_Response Authorization_Complete_Page
                                         (Some ''text/html''), st'))))))"

section \<open>Batch redirection\<close>

text \<open>
  \<open>add_all_command\<close>. The loop runs over \<open>verified_members\<close> with \<open>enumerate\<close>; the
  reply to the PUT and the clock are given per loop index. The state of the loop holds
  the store, the three counters, the number of \<open>asyncio.sleep(1.5)\<close> calls made and the
  user ids for which \<open>add_user_to_guild_via_oauth2\<close> was called, in order.

  The command talks to the channel with \<open>ctx.send\<close> and \<open>status_msg.edit\<close>, none of
  them inside a \<open>try\<close>: when the chat platform refuses one (\<open>chat_raises\<close>), the
  exception ends the command there; inside the loop this is the progress edit made on
  every third index. The optional kick is inside a \<open>try\<close> that swallows its failure,
  and touches neither table nor counter.
\<close>

datatype chat_call =
    Reply_Role_Not_Found
  | Reply_No_Users
  | Send_Starting
  | Edit_Progress nat
  | Edit_Report

record batch_env =
  put_reply :: "nat \<Rightarrow> string http_result"
  clock :: "nat \<Rightarrow> string"
  chat_raises :: "chat_call \<Rightarrow> bool"

record batch =
  tables :: store
  success_count :: nat
  fail_count :: nat
  no_token_count :: nat
  sleeps :: nat
  calls :: "string list"

datatype chat_msg =
    Verified_Role_Not_Found
  | No_Verified_Users
  | Batch_Report nat nat nat

text \<open>
  \<open>user_access_tokens.get(user_id_str)\<close> followed by \<open>if not access_token\<close>: the value
  under the key when there is one and it is true, else nothing.
\<close>

definition usable_token :: "store \<Rightarrow> int \<Rightarrow> jvalue option" where
  "usable_token st m =
     (case objects st (user_access_tokens st) (py_str m) of
        None \<Rightarrow> None
      | Some access_token \<Rightarrow> if truthy_value access_token then Some access_token else None)"

fun add_all_loop ::
  "config \<Rightarrow> batch_env \<Rightarrow> nat \<Rightarrow> int list \<Rightarrow> batch \<Rightarrow> py_error option \<times> batch"
where
  "add_all_loop cfg env i [] b = (None, b)"
| "add_all_loop cfg env i (member # rest) b =
     (case usable_token (tables b) member of
        None \<Rightarrow> add_all_loop cfg env (Suc i) rest (b\<lparr>no_token_count := no_token_count b + 1\<rparr>)
      | Some access_token \<Rightarrow>
          if i mod 3 = 0 \<and> chat_raises env (Edit_Progress i) then (Some HTTPException, b)
          else
            (case add_user_to_guild_via_oauth2 (put_reply env i) (clock env i) (tables b)
                    (py_str member) access_token (TARGET_SERVER_ID cfg) of
               (success, st') \<Rightarrow>
                 add_all_loop cfg env (Suc i) rest
                   (if success
                    then b\<lparr>tables := st', success_count := success_count b + 1,
                           sleeps := sleeps b + 1, calls := calls b @ [py_str member]\<rparr>
                    else b\<lparr>tables := st', fail_count := fail_count b + 1,
                           sleeps := sleeps b + 1, calls := calls b @ [py_str member]\<rparr>)))"

definition verified_members :: "store \<Rightarrow> int list \<Rightarrow> int list" where
  "verified_members st role_members =
     filter (\<lambda>m. objects st (user_access_tokens st) (py_str m) \<noteq> None) role_members"

definition start_batch :: "store \<Rightarrow> batch" where
  "start_batch st =
     \<lparr>tables = st, success_count = 0, fail_count = 0, no_token_count = 0, sleeps = 0,
      calls = []\<rparr>"

text \<open>
  \<open>role_members\<close> is \<open>verified_role.members\<close>, or None when the role is not found. The
  result is the last message that reached the channel, or the exception that ended the
  command, together with the state of the loop at that point.
\<close>

definition add_all_command ::
  "config \<Rightarrow> batch_env \<Rightarrow> int list option \<Rightarrow> store \<Rightarrow> (py_error + chat_msg) \<times> batch"
where
  "add_all_command cfg env role_members st =
     (case role_members of
        None \<Rightarrow>
          (if chat_raises env Reply_Role_Not_Found then Inl HTTPException
           else Inr Verified_Role_Not_Found, start_batch st)
      | Some ms \<Rightarrow>
          if verified_members st ms = [] then
            (if chat_raises env Reply_No_Users then Inl HTTPException
             else Inr No_Verified_Users, start_batch st)
          else if chat_raises env Send_Starting then (Inl HTTPException, start_batch st)
          else
            (case add_all_loop cfg env 0 (verified_members st ms) (start_batch st) of
               (Some e, b) \<Rightarrow> (Inl e, b)
             | (None, b) \<Rightarrow>
                 (if chat_raises env Edit_Report then Inl HTTPException
                  else Inr (Batch_Report (success_count b) (fail_count b) (no_token_count b)),
                  b)))"

section \<open>Concrete scenarios\<close>

text \<open>
  A configuration; a guild with two members (the role update of member 43 raises); a
  start without any of the three files, where the three names are bound to the one
  default dict; a start with all three files, where they are three dicts; the
  provider's replies, the replies to a batch and a click on the verification button.
\<close>

definition example_config :: config where
  "example_config =
     \<lparr>CLIENT_ID = ''1234'', REDIRECT_URI = ''https://bot.example/callback'',
      UNVERIFIED_ROLE_ID = 10, VERIFIED_ROLE_ID = 11, TARGET_SERVER_ID = 900\<rparr>"

definition example_guilds :: "int \<rightharpoonup> guild" where
  "example_guilds =
     [500 \<mapsto> \<lparr>guild_members = [42, 43], guild_roles = [10, 11],
               role_update_raises = (\<lambda>m. m = 43)\<rparr>]"

definition fresh_store :: store where
  "fresh_store = startup \<lparr>tokens_file = None, pending_file = None, adds_file = None\<rparr>"

definition example_store :: store where
  "example_store =
     startup
       \<lparr>tokens_file = Some [''7'' \<mapsto> JStr ''tok7''],
        pending_file = Some [''42'' \<mapsto> JInt 500, ''43'' \<mapsto> JInt 500],
        adds_file = Some Map.empty\<rparr>"

definition identity_of :: "string \<Rightarrow> json_obj option http_result" where
  "identity_of user_id = Http_Response 200 (Some [(''id'', user_id), (''username'', ''user'')])"

definition token_of :: "string \<Rightarrow> json_obj option http_result" where
  "token_of access_token =
     Http_Response 200 (Some [(''access_token'', access_token), (''token_type'', ''Bearer'')])"

definition example_provider :: provider where
  "example_provider =
     \<lparr>token_reply = token_of ''tokA'', identity_reply_callback = identity_of ''42'',
      identity_reply_verification = identity_of ''42''\<rparr>"

definition example_batch_env :: batch_env where
  "example_batch_env =
     \<lparr>put_reply = (\<lambda>i. Http_Response 201 []), clock = (\<lambda>i. ''t0''),
      chat_raises = (\<lambda>c. False)\<rparr>"

definition example_interaction :: interaction where
  "example_interaction =
     \<lparr>member_id = 42, member_roles = [], origin_guild_id = 500, origin_guild_roles = [10, 11],
      add_roles_raises = False, send_raises = False\<rparr>"

text \<open>
  A start with the token file only: the pending table and the log are the one default
  dict.
\<close>

definition logged_store :: store where
  "logged_store =
     startup \<lparr>tokens_file = Some [''42'' \<mapsto> JStr ''tok42''], pending_file = None, adds_file = None\<rparr>"

section \<open>Auxiliary lemmas\<close>

subsection \<open>Decimal numerals\<close>

lemma is_digit_digit_char: "d < 10 \<Longrightarrow> is_digit (digit_char d)"
  by (simp add: is_digit_def digit_char_def)

lemma digit_val_digit_char: "d < 10 \<Longrightarrow> digit_val (digit_char d) = d"
  by (simp add: digit_val_def digit_char_def)

lemma digits_all_digit: "\<forall>c \<in> set (digits n). is_digit c"
proof (induction n rule: digits.induct)
  case (1 n)
  show ?case
  proof (cases "n < 10")
    case True
    then show ?thesis by (subst digits.simps) (simp add: is_digit_digit_char)
  next
    case False
    with 1 show ?thesis by (subst digits.simps) (simp add: is_digit_digit_char)
  qed
qed

lemma digits_nonempty: "digits n \<noteq> []"
  by (subst digits.simps) simp

lemma parse_digits_all_digit:
  "\<forall>c \<in> set cs. is_digit c \<Longrightarrow>
   parse_digits acc cs = Some (foldl (\<lambda>a c. 10 * a + digit_val c) acc cs)"
  by (induction cs arbitrary: acc) simp_all

lemma foldl_digits: "foldl (\<lambda>a c. 10 * a + digit_val c) 0 (digits n) = n"
proof (induction n rule: digits.induct)
  case (1 n)
  show ?case
  proof (cases "n < 10")
    case True
    then show ?thesis by (subst digits.simps) (simp add: digit_val_digit_char)
  next
    case False
    with 1 show ?thesis by (subst digits.simps) (simp add: digit_val_digit_char)
  qed
qed

lemma parse_nat_digits: "parse_nat (digits n) = Some n"
proof -
  obtain c cs where eq: "digits n = c # cs"
    using digits_nonempty [of n] by (cases "digits n") auto
  have dig: "\<forall>x \<in> set (c # cs). is_digit x"
    using digits_all_digit [of n] eq by simp
  have "parse_nat (c # cs) = parse_digits 0 (c # cs)"
    using dig by (simp add: parse_nat_def)
  also have "\<dots> = Some (foldl (\<lambda>a c. 10 * a + digit_val c) 0 (c # cs))"
    using dig by (rule parse_digits_all_digit)
  finally show ?thesis using foldl_digits [of n] eq by simp
qed

lemma is_digit_not_space: "is_digit c \<Longrightarrow> \<not> is_space c"
  by (auto simp: is_digit_def is_space_def Let_def)

lemma dropWhile_none: "\<forall>c \<in> set s. \<not> P c \<Longrightarrow> dropWhile P s = s"
  by (cases s) simp_all

lemma strip_no_space: "\<forall>c \<in> set s. \<not> is_space c \<Longrightarrow> strip s = s"
  by (simp add: strip_def dropWhile_none)

lemma not_space_minus: "\<not> is_space (CHR ''-'')"
  by (simp add: is_space_def)

lemma py_str_no_space: "\<forall>c \<in> set (py_str i). \<not> is_space c"
  using digits_all_digit is_digit_not_space not_space_minus
  by (auto simp: py_str_def)

lemma digit_not_sign: "is_digit c \<Longrightarrow> c \<noteq> CHR ''-'' \<and> c \<noteq> CHR ''+''"
  by (auto simp: is_digit_def)

lemma py_int_digits: "py_int (digits n) = Some (int n)"
proof -
  obtain c cs where eq: "digits n = c # cs"
    using digits_nonempty [of n] by (cases "digits n") auto
  have "is_digit c" using digits_all_digit [of n] eq by simp
  then have ns: "c \<noteq> CHR ''-''" "c \<noteq> CHR ''+''" using digit_not_sign by auto
  have "strip (digits n) = digits n"
    using digits_all_digit is_digit_not_space by (intro strip_no_space) blast
  then show ?thesis
    using eq ns parse_nat_digits [of n] by (simp add: py_int_def)
qed

lemma py_int_py_str: "py_int (py_str i) = Some i"
proof (cases "i < 0")
  case True
  have "strip (py_str i) = py_str i"
    using py_str_no_space by (rule strip_no_space)
  then show ?thesis
    using True parse_nat_digits [of "nat (- i)"] by (simp add: py_int_def py_str_def)
next
  case False
  then show ?thesis by (simp add: py_str_def py_int_digits)
qed

lemma py_str_inj: "py_str i = py_str j \<Longrightarrow> i = j"
  by (metis option.inject py_int_py_str)


lemma digit_not_colon: "is_digit c \<Longrightarrow> c \<noteq> CHR '':''"
  by (auto simp: is_digit_def)

lemma py_str_no_colon: "CHR '':'' \<notin> set (py_str i)"
  using digits_all_digit digit_not_colon by (auto simp: py_str_def)

lemma split_on_absent: "sep \<notin> set s \<Longrightarrow> split_on sep s = [s]"
  by (induction s) auto

lemma split_on_once:
  "sep \<notin> set a \<Longrightarrow> sep \<notin> set b \<Longrightarrow> split_on sep (a @ sep # b) = [a, b]"
  by (induction a) (auto simp: split_on_absent)

lemma parse_state_state_data: "parse_state (Some (state_data u g)) = (Some u, Some g)"
  using split_on_once [OF py_str_no_colon py_str_no_colon, of u g]
  by (simp add: parse_state_def state_data_def py_int_py_str)

subsection \<open>Numerals of the scenarios\<close>

lemma py_str_42: "py_str 42 = ''42''"
  by code_simp

lemma py_str_41: "py_str 41 = ''41''"
  by code_simp

lemma py_str_43: "py_str 43 = ''43''"
  by code_simp

lemma py_str_7: "py_str 7 = ''7''"
  by code_simp

lemma py_int_42: "py_int ''42'' = Some 42"
  by code_simp

subsection \<open>Writes to a dict\<close>



lemma dict_refs [simp]:
  "user_access_tokens (dict_set st r k v) = user_access_tokens st"
  "pending_verifications (dict_set st r k v) = pending_verifications st"
  "oauth2_adds_log (dict_set st r k v) = oauth2_adds_log st"
  "user_access_tokens (dict_del st r k) = user_access_tokens st"
  "pending_verifications (dict_del st r k) = pending_verifications st"
  "oauth2_adds_log (dict_del st r k) = oauth2_adds_log st"
  by (simp_all add: dict_set_def dict_del_def)

subsection \<open>The authoritative user id\<close>

lemma authoritative_id:
  assumes "map_of user_info ''id'' = Some (py_str n)"
  shows "(if py_str user_id \<noteq> str_of_json (map_of user_info ''id'')
          then int_of_json (map_of user_info ''id'') else Inr user_id) = Inr n"
  using assms py_str_inj [of user_id n]
  by (auto simp: str_of_json_def int_of_json_def py_int_py_str)

lemma complete_verification_identity:
  assumes "reply = Http_Response 200 (Some user_info)" "user_info \<noteq> []"
    and "map_of user_info ''id'' = Some (py_str n)"
  shows "complete_verification cfg guilds reply st user_id access_token =
     (case objects st (pending_verifications st) (py_str n) of
        Some guild_id \<Rightarrow>
          (case verify_user_in_guild cfg guilds n guild_id of
             Inl e \<Rightarrow> Inl e
           | Inr success \<Rightarrow>
               if success then
                 Inr (True,
                      dict_set (dict_del st (pending_verifications st) (py_str n))
                        (user_access_tokens st) (py_str n) (JStr access_token))
               else Inr (False, st))
      | None \<Rightarrow>
          Inr (False, dict_set st (user_access_tokens st) (py_str n) (JStr access_token)))"
  using assms(1,2) authoritative_id [OF assms(3), of user_id]
  by (simp add: complete_verification_def get_user_info_def Let_def)

subsection \<open>When the callback returns\<close>

lemma verify_returns:
  assumes "\<forall>es. guild_id \<noteq> JLog es"
  shows "\<exists>ok. verify_user_in_guild cfg guilds user_id guild_id = Inr ok"
  using assms
  by (cases guild_id) (auto simp: verify_user_in_guild_def split: option.splits)

lemma complete_verification_returns:
  assumes "\<forall>ui. get_user_info reply = Some ui \<longrightarrow> ui \<noteq> []
              \<longrightarrow> (\<exists>n. int_of_json (map_of ui ''id'') = Inr n)"
    and "\<forall>k es. objects st (pending_verifications st) k \<noteq> Some (JLog es)"
  shows "\<exists>ok st'. complete_verification cfg guilds reply st user_id access_token = Inr (ok, st')"
proof (cases "get_user_info reply")
  case None
  then show ?thesis by (auto simp: complete_verification_def)
next
  case (Some ui)
  show ?thesis
  proof (cases "ui = []")
    case True
    with Some show ?thesis by (auto simp: complete_verification_def)
  next
    case False
    with assms(1) Some obtain n where n: "int_of_json (map_of ui ''id'') = Inr n" by blast
    define uid where "uid = (if py_str user_id \<noteq> str_of_json (map_of ui ''id'') then n else user_id)"
    have sel: "(if py_str user_id \<noteq> str_of_json (map_of ui ''id'')
                then int_of_json (map_of ui ''id'') else Inr user_id) = Inr uid"
      using n by (simp add: uid_def)
    show ?thesis
    proof (cases "objects st (pending_verifications st) (py_str uid)")
      case None
      with Some False sel show ?thesis
        by (auto simp: complete_verification_def Let_def)
    next
      case (Some g)
      with assms(2) have "\<forall>es. g \<noteq> JLog es" by metis
      from verify_returns [OF this] obtain ok where
        ok: "verify_user_in_guild cfg guilds uid g = Inr ok" by blast
      from \<open>get_user_info reply = Some ui\<close> False sel Some ok show ?thesis
        by (cases ok) (auto simp: complete_verification_def Let_def)
    qed
  qed
qed

lemma resolve_user_id_returns:
  assumes "\<forall>ui. get_user_info (identity_reply_callback prov) = Some ui \<longrightarrow> ui \<noteq> []
              \<longrightarrow> (\<exists>n. int_of_json (map_of ui ''id'') = Inr n)"
  shows "\<exists>v. resolve_user_id prov user_id = Inr v"
  using assms
  by (auto simp: resolve_user_id_def split: option.splits)

lemma handle_callback_status:
  "handle_callback cfg guilds prov st req = Inr (r, st') \<Longrightarrow> status r = 200"
  by (auto simp: handle_callback_def web_Response_def
      split: option.splits sum.splits if_splits prod.splits)

lemma example_pending_no_list:
  "\<forall>k es. objects example_store (pending_verifications example_store) k \<noteq> Some (JLog es)"
  by (simp add: example_store_def startup_def load_json_file_def file_dict_def)

subsection \<open>The batch loop\<close>

lemma log_append_effect:
  assumes "log_append st user_id e = Some st'"
  shows "user_access_tokens st' = user_access_tokens st
     \<and> pending_verifications st' = pending_verifications st
     \<and> oauth2_adds_log st' = oauth2_adds_log st
     \<and> (\<forall>r k. \<not> (r = oauth2_adds_log st \<and> k = user_id) \<longrightarrow> objects st' r k = objects st r k)
     \<and> (\<exists>v. objects st' (oauth2_adds_log st) user_id = Some v \<and> truthy_value v)"
  using assms
  by (auto simp: log_append_def Let_def dict_set_def truthy_value_def
      split: if_splits option.splits jvalue.splits)

lemma add_user_effect:
  assumes "add_user_to_guild_via_oauth2 reply now st user_id access_token guild_id = (ok, st')"
  shows "user_access_tokens st' = user_access_tokens st
     \<and> pending_verifications st' = pending_verifications st
     \<and> oauth2_adds_log st' = oauth2_adds_log st
     \<and> (\<forall>r k. \<not> (r = oauth2_adds_log st \<and> k = user_id) \<longrightarrow> objects st' r k = objects st r k)
     \<and> (objects st' (oauth2_adds_log st) user_id = objects st (oauth2_adds_log st) user_id
         \<or> (\<exists>v. objects st' (oauth2_adds_log st) user_id = Some v \<and> truthy_value v))"
proof (cases "st' = st")
  case True
  then show ?thesis by simp
next
  case False
  with assms obtain e where "log_append st user_id e = Some st'"
    by (auto simp: add_user_to_guild_via_oauth2_def
        split: jvalue.splits http_result.splits if_splits option.splits)
  from log_append_effect [OF this] show ?thesis by blast
qed

lemma add_user_keeps_usable:
  assumes "usable_token st m0 \<noteq> None"
    and "add_user_to_guild_via_oauth2 reply now st (py_str m0) access_token guild_id = (ok, st')"
  shows "(usable_token st' m = None) = (usable_token st m = None)"
proof -
  note eff = add_user_effect [OF assms(2)]
  show ?thesis
  proof (cases "user_access_tokens st = oauth2_adds_log st \<and> py_str m = py_str m0")
    case True
    from assms(1) True have before: "usable_token st m \<noteq> None"
      by (simp add: usable_token_def)
    from eff True have
      "objects st' (user_access_tokens st') (py_str m) = objects st (user_access_tokens st) (py_str m)
       \<or> (\<exists>v. objects st' (user_access_tokens st') (py_str m) = Some v \<and> truthy_value v)"
      by auto
    then have "usable_token st' m \<noteq> None"
      using before by (auto simp: usable_token_def split: option.splits)
    with before show ?thesis by auto
  next
    case False
    with eff have "objects st' (user_access_tokens st') (py_str m)
        = objects st (user_access_tokens st) (py_str m)"
      by auto
    then show ?thesis by (simp add: usable_token_def)
  qed
qed


lemma add_all_loop_never_skips:
  assumes "\<forall>m \<in> set ms. usable_token (tables b) m \<noteq> None"
  shows "no_token_count (snd (add_all_loop cfg env i ms b)) = no_token_count b"
  using assms
proof (induction ms arbitrary: i b)
  case Nil
  then show ?case by simp
next
  case (Cons m ms)
  from Cons.prems obtain tok where Some: "usable_token (tables b) m = Some tok"
    by auto
  show ?case
  proof (cases "i mod 3 = 0 \<and> chat_raises env (Edit_Progress i)")
    case True
    with Some show ?thesis by simp
  next
    case False
    obtain ok st' where r:
      "add_user_to_guild_via_oauth2 (put_reply env i) (clock env i) (tables b) (py_str m) tok
         (TARGET_SERVER_ID cfg) = (ok, st')"
      by (cases "add_user_to_guild_via_oauth2 (put_reply env i) (clock env i) (tables b) (py_str m) tok
         (TARGET_SERVER_ID cfg)") auto
    have usable: "usable_token (tables b) m \<noteq> None" using Some by simp
    have tok_eq: "\<And>x. (usable_token st' x = None) = (usable_token (tables b) x = None)"
      using add_user_keeps_usable [OF usable r] by simp
    define b1 where "b1 = (if ok
                  then b\<lparr>tables := st', success_count := success_count b + 1,
                         sleeps := sleeps b + 1, calls := calls b @ [py_str m]\<rparr>
                  else b\<lparr>tables := st', fail_count := fail_count b + 1,
                         sleeps := sleeps b + 1, calls := calls b @ [py_str m]\<rparr>)"
    have step: "add_all_loop cfg env i (m # ms) b = add_all_loop cfg env (Suc i) ms b1"
      using Some r False by (auto simp: b1_def)
    have t1: "tables b1 = st'" and n1: "no_token_count b1 = no_token_count b"
      by (simp_all add: b1_def)
    have "\<forall>x \<in> set ms. usable_token (tables b1) x \<noteq> None"
      using Cons.prems by (simp add: t1 tok_eq)
    from Cons.IH [OF this, of "Suc i"] show ?thesis
      unfolding step by (simp add: n1)
  qed
qed



lemma verified_members_usable:
  assumes "\<forall>k v. objects st (user_access_tokens st) k = Some v \<longrightarrow> (\<exists>s. v = JStr s \<and> s \<noteq> [])"
  shows "\<forall>m \<in> set (verified_members st ms). usable_token st m \<noteq> None"
  using assms
  by (fastforce simp: verified_members_def usable_token_def truthy_value_def split: option.splits)

section \<open>The authorization URL\<close>

text \<open>
  Claim C8. For all user and group ids, the authorization URL is a function of the client
  id, the redirect URI and the two ids alone; it ends with the \<open>state\<close> parameter
  \<open>{user_id}:{group_id}\<close>; the parsing of that state in \<open>handle_callback\<close> (split at
  the colon, \<open>int\<close> of each field) gives back the same pair of ids; and the URL that
  \<open>start_verify\<close> sends is this URL for the member and the guild of the interaction.
\<close>

theorem authorization_state_roundtrip:
  "(CLIENT_ID cfg = CLIENT_ID cfg' \<and> REDIRECT_URI cfg = REDIRECT_URI cfg'
      \<longrightarrow> oauth_url cfg user_id group_id = oauth_url cfg' user_id group_id)
   \<and> suffix (''&state='' @ state_data user_id group_id) (oauth_url cfg user_id group_id)
   \<and> parse_state (Some (state_data user_id group_id)) = (Some user_id, Some group_id)
   \<and> (start_verify cfg ia st = (Check_Your_DMs url, st')
      \<longrightarrow> url = oauth_url cfg (member_id ia) (origin_guild_id ia))"
proof -
  have "suffix (''&state='' @ state_data user_id group_id) (oauth_url cfg user_id group_id)"
    unfolding oauth_url_def suffix_def
    by (rule exI [of _ "''https://discord.com/api/oauth2/authorize?client_id='' @ CLIENT_ID cfg
          @ ''&redirect_uri='' @ REDIRECT_URI cfg
          @ ''&response_type=code&scope=identify+guilds.join''"]) simp
  moreover have "start_verify cfg ia st = (Check_Your_DMs url, st')
      \<longrightarrow> url = oauth_url cfg (member_id ia) (origin_guild_id ia)"
    by (auto simp: start_verify_def Let_def split: if_splits)
  ultimately show ?thesis
    by (simp add: oauth_url_def parse_state_state_data)
qed

theorem authorization_state_roundtrip_witness:
  "CLIENT_ID example_config = CLIENT_ID (example_config\<lparr>TARGET_SERVER_ID := 901\<rparr>)
   \<and> REDIRECT_URI example_config = REDIRECT_URI (example_config\<lparr>TARGET_SERVER_ID := 901\<rparr>)
   \<and> oauth_url example_config 42 500 = oauth_url (example_config\<lparr>TARGET_SERVER_ID := 901\<rparr>) 42 500
   \<and> start_verify example_config example_interaction example_store =
       (Check_Your_DMs (oauth_url example_config 42 500),
        dict_set example_store (pending_verifications example_store) ''42'' (JInt 500))
   \<and> suffix (''&state='' @ state_data 42 500) (oauth_url example_config 42 500)
   \<and> parse_state (Some (state_data 42 500)) = (Some 42, Some 500)"
proof -
  have sv: "start_verify example_config example_interaction example_store =
       (Check_Your_DMs (oauth_url example_config 42 500),
        dict_set example_store (pending_verifications example_store) ''42'' (JInt 500))"
    by (simp add: start_verify_def example_interaction_def example_config_def Let_def py_str_42)
  note t = authorization_state_roundtrip
        [of example_config "example_config\<lparr>TARGET_SERVER_ID := 901\<rparr>" 42 500
            example_interaction example_store "oauth_url example_config 42 500"
            "dict_set example_store (pending_verifications example_store) ''42'' (JInt 500)"]
  have same: "CLIENT_ID example_config = CLIENT_ID (example_config\<lparr>TARGET_SERVER_ID := 901\<rparr>)"
    "REDIRECT_URI example_config = REDIRECT_URI (example_config\<lparr>TARGET_SERVER_ID := 901\<rparr>)"
    by simp_all
  from t same have det:
    "oauth_url example_config 42 500 = oauth_url (example_config\<lparr>TARGET_SERVER_ID := 901\<rparr>) 42 500"
    by blast
  from t have suf: "suffix (''&state='' @ state_data 42 500) (oauth_url example_config 42 500)"
    and parsed: "parse_state (Some (state_data 42 500)) = (Some 42, Some 500)"
    by blast+
  from same det sv suf parsed show ?thesis
    by (intro conjI)
qed

section \<open>Reconciliation\<close>



text \<open>
  Claim C2 says that after a reconciliation with a pending record and a successful role
  change the pending record of the user is gone. On a start without the JSON files
  \<open>load_json_file\<close> binds the three names to its one default dict. Member 42 clicks the
  button, the callback for 42 arrives and the role change succeeds:
  \<open>complete_verification\<close> returns True, line 368 deletes the key and line 372 writes
  the token under the same key of the same dict, so \<open>pending_verifications\<close> still has
  an entry for 42, the token.
\<close>

theorem shared_default_keeps_pending_key:
  "(case complete_verification example_config example_guilds (identity_of ''42'')
           (snd (start_verify example_config example_interaction fresh_store)) 42 ''tokA'' of
      Inl e \<Rightarrow> False
    | Inr (ok, st') \<Rightarrow>
        ok \<and> objects st' (pending_verifications st') ''42'' = Some (JStr ''tokA'')
           \<and> objects st' (user_access_tokens st') ''42'' = Some (JStr ''tokA''))"
  by (simp add: complete_verification_def get_user_info_def identity_of_def str_of_json_def
        py_str_42 start_verify_def example_interaction_def example_config_def Let_def
        fresh_store_def startup_def load_json_file_def file_dict_def default_dict_def
        dict_set_def dict_del_def verify_user_in_guild_def example_guilds_def)

text \<open>
  When the pending table and the token table are two dicts, the effects are the ones
  the claim states: the result is True, the pending record is gone and the token is
  stored.
\<close>

lemma reconciled_with_distinct_tables:
  assumes "reply = Http_Response 200 (Some user_info)" "user_info \<noteq> []"
    and "map_of user_info ''id'' = Some (py_str n)"
    and "objects st (pending_verifications st) (py_str n) = Some guild_id"
    and "verify_user_in_guild cfg guilds n guild_id = Inr True"
    and "pending_verifications st \<noteq> user_access_tokens st"
  shows "\<exists>st'. complete_verification cfg guilds reply st state_user_id access_token = Inr (True, st')
     \<and> objects st' (pending_verifications st') (py_str n) = None
     \<and> objects st' (user_access_tokens st') (py_str n) = Some (JStr access_token)"
  using assms(4,5,6)
  by (simp add: complete_verification_identity [OF assms(1,2,3)] dict_set_def dict_del_def)

text \<open>
  Claim C3. When a pending record exists for the authoritative user but the role change
  fails, \<open>complete_verification\<close> returns False and the store is the one before: the
  pending record stays and no token is written.
\<close>

theorem failed_role_transition_keeps_tables:
  assumes "reply = Http_Response 200 (Some user_info)" "user_info \<noteq> []"
    and "map_of user_info ''id'' = Some (py_str n)"
    and "objects st (pending_verifications st) (py_str n) = Some guild_id"
    and "verify_user_in_guild cfg guilds n guild_id = Inr False"
  shows "complete_verification cfg guilds reply st state_user_id access_token = Inr (False, st)"
  using assms(4,5)
  by (simp add: complete_verification_identity [OF assms(1,2,3)])

theorem failed_role_transition_keeps_tables_witness:
  "identity_of ''43'' = Http_Response 200 (Some [(''id'', ''43''), (''username'', ''user'')])
   \<and> map_of [(''id'', ''43''), (''username'', ''user'')] ''id'' = Some (py_str 43)
   \<and> objects example_store (pending_verifications example_store) ''43'' = Some (JInt 500)
   \<and> verify_user_in_guild example_config example_guilds 43 (JInt 500) = Inr False
   \<and> complete_verification example_config example_guilds (identity_of ''43'') example_store 43 ''tokA'' =
       Inr (False, example_store)"
  using failed_role_transition_keeps_tables
    [of "identity_of ''43''" "[(''id'', ''43''), (''username'', ''user'')]" 43 example_store "JInt 500"
        example_config example_guilds 43 "''tokA''"]
  by (simp add: py_str_43 identity_of_def example_store_def startup_def load_json_file_def
        file_dict_def verify_user_in_guild_def example_guilds_def example_config_def)

text \<open>
  Claim C4 says that a reconciliation without a pending record stores the token and
  leaves the pending table untouched. On a start without the JSON files the callback
  for user 7, who has no pending record, writes the token into the one dict that all
  three names are bound to: afterwards \<open>pending_verifications\<close> has an entry for 7.
\<close>

theorem shared_default_touches_pending:
  "objects fresh_store (pending_verifications fresh_store) ''7'' = None
   \<and> (case complete_verification example_config example_guilds (identity_of ''7'') fresh_store 7 ''tokB'' of
        Inl e \<Rightarrow> False
      | Inr (ok, st') \<Rightarrow>
          objects st' (user_access_tokens st') ''7'' = Some (JStr ''tokB'')
          \<and> objects st' (pending_verifications st') ''7'' = Some (JStr ''tokB''))"
  by (simp add: complete_verification_def get_user_info_def identity_of_def str_of_json_def
        py_str_7 Let_def fresh_store_def startup_def load_json_file_def file_dict_def
        default_dict_def dict_set_def)

text \<open>
  When the pending table and the token table are two dicts, the token is stored and the
  pending table is what it was.
\<close>

lemma no_pending_with_distinct_tables:
  assumes "reply = Http_Response 200 (Some user_info)" "user_info \<noteq> []"
    and "map_of user_info ''id'' = Some (py_str n)"
    and "objects st (pending_verifications st) (py_str n) = None"
    and "pending_verifications st \<noteq> user_access_tokens st"
  shows "\<exists>ok st'. complete_verification cfg guilds reply st state_user_id access_token = Inr (ok, st')
     \<and> objects st' (pending_verifications st') = objects st (pending_verifications st)
     \<and> objects st' (user_access_tokens st') (py_str n) = Some (JStr access_token)"
  using assms(4,5)
  by (auto simp: complete_verification_identity [OF assms(1,2,3)] dict_set_def)

section \<open>The callback endpoint, proved\<close>

text \<open>
  Claim C5. When the token exchange fails (the request raises, the status is not 200, the
  body is not JSON, or the object has no \<open>access_token\<close>), \<open>handle_callback\<close> returns
  a plain-text page and the store it was given: no dict is written.
\<close>

theorem failed_exchange_no_mutation:
  assumes "token_reply prov = Http_Exception
     \<or> (\<exists>status body. token_reply prov = Http_Response status body
          \<and> (status \<noteq> 200 \<or> body = None
              \<or> (\<exists>token_data. body = Some token_data \<and> map_of token_data ''access_token'' = None)))"
  shows "handle_callback cfg guilds prov st req =
     Inr (web_Response
            (if query_code req = None \<or> query_code req = Some [] then No_Code_Message
             else Exchange_Failed_Message) None, st)"
  using assms
  by (auto simp: handle_callback_def exchange_code_for_token_def split: option.splits if_splits)

theorem failed_exchange_no_mutation_witness:
  "token_reply \<lparr>token_reply = Http_Response 400 None,
                 identity_reply_callback = identity_of ''42'',
                 identity_reply_verification = identity_of ''42''\<rparr> = Http_Response 400 None
   \<and> (400 :: int) \<noteq> 200
   \<and> handle_callback example_config example_guilds
        \<lparr>token_reply = Http_Response 400 None,
         identity_reply_callback = identity_of ''42'',
         identity_reply_verification = identity_of ''42''\<rparr>
        example_store \<lparr>query_code = Some ''abc'', query_state = Some ''42:500''\<rparr> =
       Inr (web_Response Exchange_Failed_Message None, example_store)"
  using failed_exchange_no_mutation
    [of "\<lparr>token_reply = Http_Response 400 None,
          identity_reply_callback = identity_of ''42'',
          identity_reply_verification = identity_of ''42''\<rparr>"
        example_config example_guilds example_store
        "\<lparr>query_code = Some ''abc'', query_state = Some ''42:500''\<rparr>"]
  by simp

text \<open>
  Claim C9, as the code has it. Every response that \<open>handle_callback\<close> returns has
  status 200. Without a code, or when the exchange fails, the handler returns a
  \<open>text/plain\<close> message and leaves the store alone. Once the exchange has given an access
  token, the handler returns the \<open>text/html\<close> page whether the identity lookup or the
  reconciliation succeeds or not; it returns in every case in which an identity that
  the provider sends carries an id that \<open>int\<close> accepts and the pending table holds no
  list of log entries (otherwise \<open>int\<close> or \<open>bot.get_guild\<close> may raise).
\<close>

theorem callback_response:
  "(query_code req = None \<or> query_code req = Some []
      \<longrightarrow> handle_callback cfg guilds prov st req =
          Inr (\<lparr>status = 200, content_type = ''text/plain'', body = No_Code_Message\<rparr>, st))
   \<and> (query_code req = Some code \<and> code \<noteq> []
       \<and> (exchange_code_for_token (token_reply prov) = None
           \<or> (\<exists>token_data. exchange_code_for_token (token_reply prov) = Some token_data
                \<and> map_of token_data ''access_token'' = None))
      \<longrightarrow> handle_callback cfg guilds prov st req =
          Inr (\<lparr>status = 200, content_type = ''text/plain'', body = Exchange_Failed_Message\<rparr>, st))
   \<and> (query_code req = Some code \<and> code \<noteq> []
       \<and> exchange_code_for_token (token_reply prov) = Some token_data
       \<and> map_of token_data ''access_token'' = Some access_token
       \<and> (\<forall>ui. get_user_info (identity_reply_callback prov) = Some ui \<longrightarrow> ui \<noteq> []
              \<longrightarrow> (\<exists>n. int_of_json (map_of ui ''id'') = Inr n))
       \<and> (\<forall>ui. get_user_info (identity_reply_verification prov) = Some ui \<longrightarrow> ui \<noteq> []
              \<longrightarrow> (\<exists>n. int_of_json (map_of ui ''id'') = Inr n))
       \<and> (\<forall>k es. objects st (pending_verifications st) k \<noteq> Some (JLog es))
      \<longrightarrow> (\<exists>st'. handle_callback cfg guilds prov st req =
          Inr (\<lparr>status = 200, content_type = ''text/html'', body = Authorization_Complete_Page\<rparr>, st')))
   \<and> (\<forall>r st'. handle_callback cfg guilds prov st req = Inr (r, st') \<longrightarrow> status r = 200)"
proof (intro conjI impI allI)
  assume "query_code req = None \<or> query_code req = Some []"
  then show "handle_callback cfg guilds prov st req =
          Inr (\<lparr>status = 200, content_type = ''text/plain'', body = No_Code_Message\<rparr>, st)"
    by (auto simp: handle_callback_def web_Response_def)
next
  assume "query_code req = Some code \<and> code \<noteq> []
       \<and> (exchange_code_for_token (token_reply prov) = None
           \<or> (\<exists>token_data. exchange_code_for_token (token_reply prov) = Some token_data
                \<and> map_of token_data ''access_token'' = None))"
  then show "handle_callback cfg guilds prov st req =
          Inr (\<lparr>status = 200, content_type = ''text/plain'', body = Exchange_Failed_Message\<rparr>, st)"
    by (auto simp: handle_callback_def web_Response_def)
next
  assume a: "query_code req = Some code \<and> code \<noteq> []
       \<and> exchange_code_for_token (token_reply prov) = Some token_data
       \<and> map_of token_data ''access_token'' = Some access_token
       \<and> (\<forall>ui. get_user_info (identity_reply_callback prov) = Some ui \<longrightarrow> ui \<noteq> []
              \<longrightarrow> (\<exists>n. int_of_json (map_of ui ''id'') = Inr n))
       \<and> (\<forall>ui. get_user_info (identity_reply_verification prov) = Some ui \<longrightarrow> ui \<noteq> []
              \<longrightarrow> (\<exists>n. int_of_json (map_of ui ''id'') = Inr n))
       \<and> (\<forall>k es. objects st (pending_verifications st) k \<noteq> Some (JLog es))"
  then have ne: "token_data \<noteq> []" by auto
  from a obtain v where v: "resolve_user_id prov (fst (parse_state (query_state req))) = Inr v"
    using resolve_user_id_returns by blast
  show "\<exists>st'. handle_callback cfg guilds prov st req =
          Inr (\<lparr>status = 200, content_type = ''text/html'', body = Authorization_Complete_Page\<rparr>, st')"
  proof (cases v)
    case None
    with a ne v show ?thesis by (simp add: handle_callback_def web_Response_def)
  next
    case (Some u)
    from a obtain ok st1 where cv:
      "complete_verification cfg guilds (identity_reply_verification prov) st u access_token = Inr (ok, st1)"
      using complete_verification_returns by blast
    with a ne v Some show ?thesis by (simp add: handle_callback_def web_Response_def)
  qed
next
  fix r st'
  assume "handle_callback cfg guilds prov st req = Inr (r, st')"
  then show "status r = 200" by (rule handle_callback_status)
qed

theorem callback_response_witness:
  "handle_callback example_config example_guilds example_provider example_store
      \<lparr>query_code = None, query_state = Some ''42:500''\<rparr> =
     Inr (\<lparr>status = 200, content_type = ''text/plain'', body = No_Code_Message\<rparr>, example_store)
   \<and> handle_callback example_config example_guilds
        (example_provider\<lparr>token_reply := Http_Response 400 None\<rparr>) example_store
        \<lparr>query_code = Some ''abc'', query_state = Some ''42:500''\<rparr> =
     Inr (\<lparr>status = 200, content_type = ''text/plain'', body = Exchange_Failed_Message\<rparr>, example_store)
   \<and> map_sum id fst
        (handle_callback example_config example_guilds example_provider example_store
           \<lparr>query_code = Some ''abc'', query_state = Some ''42:500''\<rparr>) =
     Inr \<lparr>status = 200, content_type = ''text/html'', body = Authorization_Complete_Page\<rparr>
   \<and> map_sum id fst
        (handle_callback example_config example_guilds
           (example_provider\<lparr>identity_reply_verification := Http_Exception\<rparr>) example_store
           \<lparr>query_code = Some ''abc'', query_state = Some ''42:500''\<rparr>) =
     Inr \<lparr>status = 200, content_type = ''text/html'', body = Authorization_Complete_Page\<rparr>"
proof -
  have a: "handle_callback example_config example_guilds example_provider example_store
      \<lparr>query_code = None, query_state = Some ''42:500''\<rparr> =
     Inr (\<lparr>status = 200, content_type = ''text/plain'', body = No_Code_Message\<rparr>, example_store)"
    using callback_response [of "\<lparr>query_code = None, query_state = Some ''42:500''\<rparr>"
        example_config example_guilds example_provider example_store]
    by simp
  have b: "handle_callback example_config example_guilds
        (example_provider\<lparr>token_reply := Http_Response 400 None\<rparr>) example_store
        \<lparr>query_code = Some ''abc'', query_state = Some ''42:500''\<rparr> =
     Inr (\<lparr>status = 200, content_type = ''text/plain'', body = Exchange_Failed_Message\<rparr>, example_store)"
    using callback_response [of "\<lparr>query_code = Some ''abc'', query_state = Some ''42:500''\<rparr>"
        example_config example_guilds "example_provider\<lparr>token_reply := Http_Response 400 None\<rparr>"
        example_store "''abc''"]
    by (simp add: exchange_code_for_token_def)
  have c: "\<exists>st'. handle_callback example_config example_guilds example_provider example_store
           \<lparr>query_code = Some ''abc'', query_state = Some ''42:500''\<rparr> =
     Inr (\<lparr>status = 200, content_type = ''text/html'', body = Authorization_Complete_Page\<rparr>, st')"
    using callback_response [of "\<lparr>query_code = Some ''abc'', query_state = Some ''42:500''\<rparr>"
        example_config example_guilds example_provider example_store "''abc''"
        "[(''access_token'', ''tokA''), (''token_type'', ''Bearer'')]" "''tokA''"]
      example_pending_no_list
    by (simp add: exchange_code_for_token_def get_user_info_def example_provider_def token_of_def
          identity_of_def int_of_json_def py_int_42)
  have d: "\<exists>st'. handle_callback example_config example_guilds
           (example_provider\<lparr>identity_reply_verification := Http_Exception\<rparr>) example_store
           \<lparr>query_code = Some ''abc'', query_state = Some ''42:500''\<rparr> =
     Inr (\<lparr>status = 200, content_type = ''text/html'', body = Authorization_Complete_Page\<rparr>, st')"
    using callback_response [of "\<lparr>query_code = Some ''abc'', query_state = Some ''42:500''\<rparr>"
        example_config example_guilds
        "example_provider\<lparr>identity_reply_verification := Http_Exception\<rparr>" example_store "''abc''"
        "[(''access_token'', ''tokA''), (''token_type'', ''Bearer'')]" "''tokA''"]
      example_pending_no_list
    by (simp add: exchange_code_for_token_def get_user_info_def example_provider_def token_of_def
          identity_of_def int_of_json_def py_int_42)
  from c obtain st1 where c': "handle_callback example_config example_guilds example_provider example_store
           \<lparr>query_code = Some ''abc'', query_state = Some ''42:500''\<rparr> =
     Inr (\<lparr>status = 200, content_type = ''text/html'', body = Authorization_Complete_Page\<rparr>, st1)"
    by blast
  from d obtain st2 where d': "handle_callback example_config example_guilds
           (example_provider\<lparr>identity_reply_verification := Http_Exception\<rparr>) example_store
           \<lparr>query_code = Some ''abc'', query_state = Some ''42:500''\<rparr> =
     Inr (\<lparr>status = 200, content_type = ''text/html'', body = Authorization_Complete_Page\<rparr>, st2)"
    by blast
  show ?thesis
    unfolding a b c' d' by simp
qed

text \<open>
  Claim C9 as stated gives every response the content type \<open>text/html\<close>. A callback
  without a code is answered with \<open>text/plain\<close>.
\<close>

theorem callback_without_code_is_plain_text:
  "handle_callback example_config example_guilds example_provider example_store
      \<lparr>query_code = None, query_state = None\<rparr> =
     Inr (\<lparr>status = 200, content_type = ''text/plain'', body = No_Code_Message\<rparr>, example_store)
   \<and> ''text/plain'' \<noteq> ''text/html''"
  by (simp add: handle_callback_def web_Response_def)

text \<open>
  The condition on the pending table is needed. After a start with the token file only,
  the pending table and the log are one dict; a logged redirect of user 42 leaves a list
  under the key 42, and the next callback for 42 ends in the TypeError of
  \<open>bot.get_guild\<close>, with no response from the handler.
\<close>

lemma callback_raises_on_logged_user:
  "(case add_user_to_guild_via_oauth2 (Http_Response 201 ''{}'') ''t0'' logged_store ''42''
           (JStr ''tok42'') 900 of
      (ok, st') \<Rightarrow>
        ok \<and> handle_callback example_config example_guilds example_provider st'
               \<lparr>query_code = Some ''abc'', query_state = None\<rparr> = Inl TypeError)"
  by (simp add: add_user_to_guild_via_oauth2_def log_append_def logged_store_def startup_def
        load_json_file_def file_dict_def default_dict_def dict_set_def Let_def
        handle_callback_def exchange_code_for_token_def example_provider_def token_of_def
        parse_state_def resolve_user_id_def truthy_def get_user_info_def identity_of_def
        int_of_json_def py_int_42 complete_verification_def str_of_json_def py_str_42
        verify_user_in_guild_def)

section \<open>Redirection\<close>

text \<open>
  Claim C6 says that a 200 or 201 gives a successful result and one appended log entry.
  On a start without the JSON files the log is the dict that also holds the tokens.
  After the callback for user 42 has stored the token, the key 42 is there with a
  string under it; a redirect of 42 that the provider answers with 201 finds the key,
  calls \<open>.append\<close> on the string, and the exception handler returns False: nothing is
  logged.
\<close>

theorem shared_default_redirect_fails_on_201:
  "(case complete_verification example_config example_guilds (identity_of ''42'') fresh_store 42 ''tokA'' of
      Inl e \<Rightarrow> False
    | Inr (ok, st') \<Rightarrow>
        objects st' (user_access_tokens st') ''42'' = Some (JStr ''tokA'')
        \<and> add_user_to_guild_via_oauth2 (Http_Response 201 ''{}'') ''t0'' st' ''42'' (JStr ''tokA'') 900
            = (False, st'))"
  by (simp add: complete_verification_def get_user_info_def identity_of_def str_of_json_def
        py_str_42 Let_def fresh_store_def startup_def load_json_file_def file_dict_def
        default_dict_def dict_set_def add_user_to_guild_via_oauth2_def log_append_def)

text \<open>
  When the value under the user's key of the log is a list, a 200 or 201 appends one
  entry with method \<open>oauth2_guilds_join\<close> to it and a 204 one with \<open>already_member\<close>,
  both with result True; a 403 gives False and leaves the store as it was.
\<close>

lemma redirect_with_log_list:
  assumes "objects st (oauth2_adds_log st) user_id = Some (JLog es)"
  shows "add_user_to_guild_via_oauth2 (Http_Response 201 response_text) now st user_id (JStr access_token) guild_id =
       (True, dict_set st (oauth2_adds_log st) user_id
          (JLog (es @ [\<lparr>entry_timestamp = now, entry_guild_id = guild_id,
                         entry_method = ''oauth2_guilds_join''\<rparr>])))"
    and "add_user_to_guild_via_oauth2 (Http_Response 200 response_text) now st user_id (JStr access_token) guild_id =
       (True, dict_set st (oauth2_adds_log st) user_id
          (JLog (es @ [\<lparr>entry_timestamp = now, entry_guild_id = guild_id,
                         entry_method = ''oauth2_guilds_join''\<rparr>])))"
    and "add_user_to_guild_via_oauth2 (Http_Response 204 response_text) now st user_id (JStr access_token) guild_id =
       (True, dict_set st (oauth2_adds_log st) user_id
          (JLog (es @ [\<lparr>entry_timestamp = now, entry_guild_id = guild_id,
                         entry_method = ''already_member''\<rparr>])))"
    and "add_user_to_guild_via_oauth2 (Http_Response 403 response_text) now st user_id (JStr access_token) guild_id =
       (False, st)"
  using assms
  by (simp_all add: add_user_to_guild_via_oauth2_def log_append_def Let_def)



text \<open>
  Claim C10. \<open>add_all_command\<close> iterates over the members of the verified role whose
  id is a key of \<open>user_access_tokens\<close>. When every stored token is a non-empty string,
  every member it iterates over has a usable token, so the no-token branch of the loop
  is never taken: the counter stays 0, also when the command ends early, and every
  report shows 0 users without token.
\<close>

theorem batch_never_skips:
  assumes "\<forall>k v. objects st (user_access_tokens st) k = Some v \<longrightarrow> (\<exists>s. v = JStr s \<and> s \<noteq> [])"
  shows "(\<forall>ms. role_members = Some ms \<longrightarrow>
            verified_members st ms
              = filter (\<lambda>m. py_str m \<in> dom (objects st (user_access_tokens st))) ms
            \<and> (\<forall>m \<in> set (verified_members st ms). usable_token st m \<noteq> None))
     \<and> no_token_count (snd (add_all_command cfg env role_members st)) = 0
     \<and> (\<forall>a f k b. add_all_command cfg env role_members st = (Inr (Batch_Report a f k), b)
          \<longrightarrow> k = 0)"
proof -
  have usable: "\<And>ms. \<forall>m \<in> set (verified_members st ms). usable_token st m \<noteq> None"
    using verified_members_usable [OF assms] by blast
  have filt: "\<And>ms. verified_members st ms
      = filter (\<lambda>m. py_str m \<in> dom (objects st (user_access_tokens st))) ms"
    by (simp add: verified_members_def dom_def)
  have loop: "\<And>ms. no_token_count
      (snd (add_all_loop cfg env 0 (verified_members st ms) (start_batch st))) = 0"
  proof -
    fix ms
    have t: "tables (start_batch st) = st" "no_token_count (start_batch st) = 0"
      by (simp_all add: start_batch_def)
    have "\<forall>m \<in> set (verified_members st ms). usable_token (tables (start_batch st)) m \<noteq> None"
      using usable by (simp add: t)
    from add_all_loop_never_skips [OF this, of cfg env 0]
    show "no_token_count (snd (add_all_loop cfg env 0 (verified_members st ms) (start_batch st))) = 0"
      by (simp add: t)
  qed
  have zero: "no_token_count (snd (add_all_command cfg env role_members st)) = 0"
  proof (cases role_members)
    case None
    then show ?thesis by (simp add: add_all_command_def start_batch_def)
  next
    case (Some ms)
    obtain e b where r: "add_all_loop cfg env 0 (verified_members st ms) (start_batch st) = (e, b)"
      by (cases "add_all_loop cfg env 0 (verified_members st ms) (start_batch st)") auto
    with loop [of ms] have b0: "no_token_count b = 0" by simp
    show ?thesis
      using Some r b0
      by (auto simp: add_all_command_def start_batch_def split: option.splits)
  qed
  have report: "\<forall>a f k b. add_all_command cfg env role_members st = (Inr (Batch_Report a f k), b)
      \<longrightarrow> k = 0"
  proof (intro allI impI)
    fix a f k b
    assume eq: "add_all_command cfg env role_members st = (Inr (Batch_Report a f k), b)"
    then have "k = no_token_count b"
      by (auto simp: add_all_command_def split: option.splits if_splits prod.splits)
    moreover from eq zero have "no_token_count b = 0" by simp
    ultimately show "k = 0" by simp
  qed
  show ?thesis
    using usable filt zero report by blast
qed

theorem batch_never_skips_witness:
  "objects example_store (user_access_tokens example_store) = [''7'' \<mapsto> JStr ''tok7'']
   \<and> verified_members example_store [7, 42] = [7]
   \<and> no_token_count (snd (add_all_command example_config example_batch_env (Some [7, 42]) example_store)) = 0"
proof -
  have t: "objects example_store (user_access_tokens example_store) = [''7'' \<mapsto> JStr ''tok7'']"
    by (simp add: example_store_def startup_def load_json_file_def file_dict_def)
  have h: "\<forall>k v. objects example_store (user_access_tokens example_store) k = Some v
      \<longrightarrow> (\<exists>s. v = JStr s \<and> s \<noteq> [])"
    unfolding t by simp
  have v: "verified_members example_store [7, 42] = [7]"
    unfolding verified_members_def t by (simp add: py_str_7 py_str_42)
  show ?thesis
    using t v batch_never_skips [OF h, of "Some [7, 42]" example_config example_batch_env]
    by simp
qed

end
